theory Spec2Isabelle
  imports Complex_Main
begin

section \<open>Raster-to-SVG vectorisation of the Koeppen-Geiger maps\<close>

text \<open>
  The embedding follows \<^verbatim>\<open>create_vector_koppen_svg.py\<close>, its sibling
  \<^verbatim>\<open>create_final_scientific_koppen.py\<close> and \<^verbatim>\<open>koppen_with_labels.py\<close>.
  Python floats are modelled as the reals they denote: rounding of the binary
  representation is not part of the model. A division whose divisor is zero raises
  \<^verbatim>\<open>ZeroDivisionError\<close> in Python and is an error value here.
\<close>

subsection \<open>Errors\<close>

datatype py_error = ZeroDivisionError | NameError | GEOSException

subsection \<open>Coordinate projector\<close>

text \<open>
  \<^verbatim>\<open>coords_to_svg(lon, lat, west, east, north, south, svg_width, svg_height)\<close>:
  the statement for \<open>x\<close> runs first, so a degenerate longitude span raises before the
  latitude span is looked at.
\<close>

definition coords_to_svg ::
  "real \<Rightarrow> real \<Rightarrow> real \<Rightarrow> real \<Rightarrow> real \<Rightarrow> real \<Rightarrow> real \<Rightarrow> real \<Rightarrow> py_error + real \<times> real" where
  "coords_to_svg lon lat west east north south svg_width svg_height =
     (if east - west = 0 then Inl ZeroDivisionError
      else let x = ((lon - west) / (east - west)) * svg_width in
        if north - south = 0 then Inl ZeroDivisionError
        else let y = ((north - lat) / (north - south)) * svg_height in
          Inr (x, y))"

text \<open>
  The inverse of the projection, written from the specification's round-trip property
  (the source has no such function): canvas coordinates back to longitude and latitude.
\<close>

definition spec_inverse_transform ::
  "real \<Rightarrow> real \<Rightarrow> real \<Rightarrow> real \<Rightarrow> real \<Rightarrow> real \<Rightarrow> real \<Rightarrow> real \<Rightarrow> real \<times> real" where
  "spec_inverse_transform x y west east north south svg_width svg_height =
     (west + x / svg_width * (east - west), north - y / svg_height * (north - south))"

subsection \<open>Polygons as the geometry library hands them over\<close>

text \<open>
  A shapely polygon: the coordinate list of its exterior ring (closed: the last
  coordinate repeats the first) and the coordinate lists of its hole rings. The empty
  polygon has no exterior coordinates. The \<^verbatim>\<open>area\<close> property is the absolute
  shoelace area of the exterior ring less the absolute areas of the holes.
\<close>

type_synonym coord = "real \<times> real"

record polygon =
  exterior :: "coord list"
  interiors :: "coord list list"

fun shoelace :: "coord list \<Rightarrow> real" where
  "shoelace ((x1, y1) # (x2, y2) # ps) = (x1 * y2 - x2 * y1) + shoelace ((x2, y2) # ps)"
| "shoelace ps = 0"

definition ring_area :: "coord list \<Rightarrow> real" where
  "ring_area r = \<bar>shoelace r\<bar> / 2"

definition area :: "polygon \<Rightarrow> real" where
  "area p = ring_area (exterior p) - sum_list (map ring_area (interiors p))"

definition is_empty :: "polygon \<Rightarrow> bool" where
  "is_empty p = (exterior p = [])"

subsection \<open>Fixed-point number formatting and joining\<close>

text \<open>
  \<^verbatim>\<open>f"{x:.2f}"\<close> and \<^verbatim>\<open>f"{x:.1f}"\<close>: the value rounded to the given number of
  decimals, ties to the even digit, with a minus sign for a negative value (also when
  the rounded digits are all zero), the integer part without leading zeros and the
  fraction padded with zeros.
\<close>

definition digit_char :: "nat \<Rightarrow> char" where
  "digit_char n = ''0123456789'' ! n"

fun str_nat :: "nat \<Rightarrow> string" where
  "str_nat n = (if n < 10 then [digit_char n] else str_nat (n div 10) @ [digit_char (n mod 10)])"

declare str_nat.simps [simp del]

definition round_half_even :: "real \<Rightarrow> int" where
  "round_half_even r =
     (let f = \<lfloor>r\<rfloor>; d = r - of_int f in
      if d < 1 / 2 then f
      else if 1 / 2 < d then f + 1
      else if even f then f else f + 1)"

definition zero_pad :: "nat \<Rightarrow> string \<Rightarrow> string" where
  "zero_pad w s = replicate (w - length s) CHR ''0'' @ s"

definition format_fixed :: "nat \<Rightarrow> real \<Rightarrow> string" where
  "format_fixed prec x =
     (let n = nat (round_half_even (\<bar>x\<bar> * 10 ^ prec));
          ip = n div 10 ^ prec;
          fp = n mod 10 ^ prec
      in (if x < 0 then ''-'' else []) @ str_nat ip @
         (if prec = 0 then [] else ''.'' @ zero_pad prec (str_nat fp)))"

text \<open>\<^verbatim>\<open>sep.join(parts)\<close>.\<close>

fun join :: "string \<Rightarrow> string list \<Rightarrow> string" where
  "join sep [] = []"
| "join sep [s] = s"
| "join sep (s # t # ss) = s @ sep @ join sep (t # ss)"

subsection \<open>Path serializer\<close>

text \<open>
  The \<^verbatim>\<open>for i, (lon, lat) in enumerate(coords)\<close> loop of \<^verbatim>\<open>create_svg_path\<close>:
  \<open>i\<close> is the running index and \<open>path_data\<close> the list built so far. An exception of
  \<open>coords_to_svg\<close> leaves the loop.
\<close>

fun path_loop ::
  "nat \<Rightarrow> real \<Rightarrow> real \<Rightarrow> real \<Rightarrow> real \<Rightarrow> real \<Rightarrow> real \<Rightarrow> nat \<Rightarrow> coord list \<Rightarrow> string list
     \<Rightarrow> py_error + string list" where
  "path_loop prec west east north south svg_width svg_height i [] path_data = Inr path_data"
| "path_loop prec west east north south svg_width svg_height i ((lon, lat) # coords) path_data =
     (case coords_to_svg lon lat west east north south svg_width svg_height of
        Inl e \<Rightarrow> Inl e
      | Inr (x, y) \<Rightarrow>
          path_loop prec west east north south svg_width svg_height (Suc i) coords
            (path_data @
              [(if i = 0 then ''M '' else ''L '') @ format_fixed prec x @ '' '' @ format_fixed prec y]))"

text \<open>
  The body of the \<^verbatim>\<open>try\<close> block. The two scripts differ only in the number of decimals
  (\<open>prec\<close>): two in \<^verbatim>\<open>create_vector_koppen_svg.py\<close>, one in
  \<^verbatim>\<open>create_final_scientific_koppen.py\<close>.
\<close>

definition create_svg_path_body ::
  "nat \<Rightarrow> polygon \<Rightarrow> real \<Rightarrow> real \<Rightarrow> real \<Rightarrow> real \<Rightarrow> real \<Rightarrow> real \<Rightarrow> py_error + string option" where
  "create_svg_path_body prec polygon west east north south svg_width svg_height =
     (if is_empty polygon \<or> area polygon < 0.001 then Inr None
      else let coords = exterior polygon in
        if coords = [] then Inr None
        else
          (case path_loop prec west east north south svg_width svg_height 0 coords [] of
             Inl e \<Rightarrow> Inl e
           | Inr path_data \<Rightarrow> Inr (Some (join '' '' (path_data @ [''Z''])))))"

text \<open>
  What a call prints: \<^verbatim>\<open>create_vector_koppen_svg.py\<close> reports a caught exception,
  \<^verbatim>\<open>create_final_scientific_koppen.py\<close> prints nothing.
\<close>

datatype diagnostic = Error_creating_SVG_path py_error

text \<open>\<^verbatim>\<open>create_svg_path\<close> of \<^verbatim>\<open>create_vector_koppen_svg.py\<close>: result and printed lines.\<close>

definition create_svg_path ::
  "polygon \<Rightarrow> real \<Rightarrow> real \<Rightarrow> real \<Rightarrow> real \<Rightarrow> real \<Rightarrow> real \<Rightarrow> string option \<times> diagnostic list" where
  "create_svg_path polygon west east north south svg_width svg_height =
     (case create_svg_path_body 2 polygon west east north south svg_width svg_height of
        Inl e \<Rightarrow> (None, [Error_creating_SVG_path e])
      | Inr r \<Rightarrow> (r, []))"

text \<open>\<^verbatim>\<open>create_svg_path\<close> of \<^verbatim>\<open>create_final_scientific_koppen.py\<close>.\<close>

definition create_svg_path_final ::
  "polygon \<Rightarrow> real \<Rightarrow> real \<Rightarrow> real \<Rightarrow> real \<Rightarrow> real \<Rightarrow> real \<Rightarrow> string option \<times> diagnostic list" where
  "create_svg_path_final polygon west east north south svg_width svg_height =
     (case create_svg_path_body 1 polygon west east north south svg_width svg_height of
        Inl e \<Rightarrow> (None, [])
      | Inr r \<Rightarrow> (r, []))"

subsection \<open>Style table\<close>

text \<open>
  \<^verbatim>\<open>koppen_colors\<close>, a dictionary from class code to fill colour. The two scripts have
  the same thirty keys; \<^verbatim>\<open>create_final_scientific_koppen.py\<close> differs in the colour
  of class 1.
\<close>

definition koppen_colors_items :: "(int \<times> string) list" where
  "koppen_colors_items =
    [(1, ''#0000FF''), (2, ''#0078FF''), (3, ''#46AAFA''), (4, ''#FF0000''), (5, ''#FF9696''),
     (6, ''#F5A500''), (7, ''#FFDC64''), (8, ''#FFFF00''), (9, ''#C8C800''), (10, ''#969600''),
     (11, ''#96FF96''), (12, ''#64C864''), (13, ''#329632''), (14, ''#C8FF50''), (15, ''#64FF50''),
     (16, ''#32C800''), (17, ''#FF00FF''), (18, ''#C800C8''), (19, ''#963296''), (20, ''#966496''),
     (21, ''#AABFFF''), (22, ''#5A78DC''), (23, ''#4B50B4''), (24, ''#320087''), (25, ''#00FFFF''),
     (26, ''#37C8FF''), (27, ''#007D7D''), (28, ''#00465F''), (29, ''#B2B2B2''), (30, ''#666666'')]"

definition koppen_colors :: "int \<rightharpoonup> string" where
  "koppen_colors = map_of koppen_colors_items"

definition koppen_colors_final :: "int \<rightharpoonup> string" where
  "koppen_colors_final = map_of ((1, ''#0000FE'') # koppen_colors_items)"

subsection \<open>Decoded raster window\<close>

text \<open>
  What \<^verbatim>\<open>rasterio\<close> hands over: the grid of class codes (a list of rows) and the six
  coefficients of the window's affine transform, with
  \<open>(col, row) \<mapsto> (a * col + b * row + c, d * col + e * row + f)\<close>.
\<close>

type_synonym affine = "real \<times> real \<times> real \<times> real \<times> real \<times> real"

record raster =
  data :: "int list list"
  transform :: affine

fun affine_apply :: "affine \<Rightarrow> real \<times> real \<Rightarrow> real \<times> real" where
  "affine_apply (a, b, c, d, e, f) (col, row) = (a * col + b * row + c, d * col + e * row + f)"

text \<open>\<^verbatim>\<open>height, width = data.shape\<close>.\<close>

definition height :: "int list list \<Rightarrow> nat" where
  "height rows = length rows"

definition width :: "int list list \<Rightarrow> nat" where
  "width rows = (case rows of [] \<Rightarrow> 0 | r # rs \<Rightarrow> length r)"

subsection \<open>Class masks, small-feature filter and merge\<close>

text \<open>\<^verbatim>\<open>sorted(np.unique(data[data > 0]))\<close>: the distinct positive class codes, ascending.\<close>

definition climate_values :: "int list list \<Rightarrow> int list" where
  "climate_values rows = sort (remdups (filter (\<lambda>v. 0 < v) (concat rows)))"

text \<open>\<^verbatim>\<open>(data == climate_value).astype(np.uint8)\<close>.\<close>

definition class_mask :: "int list list \<Rightarrow> int \<Rightarrow> nat list list" where
  "class_mask rows climate_value = map (map (\<lambda>c. if c = climate_value then 1 else 0)) rows"

text \<open>
  The loop over \<^verbatim>\<open>polygon_generator\<close>: a shape whose value is 1 and whose area is
  above the threshold is appended to \<^verbatim>\<open>polygons\<close>. The threshold is the constant
  \<open>0.01\<close> in \<^verbatim>\<open>create_vector_koppen_svg.py\<close> and \<open>0.005\<close> in
  \<^verbatim>\<open>create_final_scientific_koppen.py\<close>.
\<close>

fun collect_polygons :: "real \<Rightarrow> (polygon \<times> real) list \<Rightarrow> polygon list" where
  "collect_polygons thr [] = []"
| "collect_polygons thr ((poly, v) # gen) =
     (if v = 1 then
        (if area poly > thr then poly # collect_polygons thr gen
         else collect_polygons thr gen)
      else collect_polygons thr gen)"

text \<open>
  The geometry library is outside the repository and enters as two functions:
  \<open>shapes\<close> stands for \<^verbatim>\<open>rasterio.features.shapes(mask, mask=mask, transform=transform)\<close>
  read into shapely polygons, \<open>unary_union\<close> for \<^verbatim>\<open>shapely.ops.unary_union\<close>, whose
  result is given as the list of its component polygons (one for a single polygon) or
  as the exception it raises.
\<close>

type_synonym shapes_fn = "nat list list \<Rightarrow> affine \<Rightarrow> (polygon \<times> real) list"
type_synonym union_fn = "polygon list \<Rightarrow> py_error + polygon list"

text \<open>
  The polygons left after filter and merge for one class: \<^verbatim>\<open>if polygons:\<close> guards the
  call of \<^verbatim>\<open>unary_union\<close>.
\<close>

definition merged_polygons :: "real \<Rightarrow> union_fn \<Rightarrow> (polygon \<times> real) list \<Rightarrow> py_error + polygon list" where
  "merged_polygons thr unary_union gen =
     (let polygons = collect_polygons thr gen in
      if polygons \<noteq> [] then unary_union polygons else Inr [])"

subsection \<open>Emitting the paths of one map\<close>

record path_element =
  path_d :: string
  path_fill :: string

text \<open>
  \<^verbatim>\<open>svg_path = create_svg_path(poly, ...)\<close>, \<^verbatim>\<open>if svg_path: dwg.add(dwg.path(...))\<close>
  for each component of the merged geometry; the empty string is falsy.
\<close>

fun add_paths :: "(polygon \<Rightarrow> string option) \<Rightarrow> string \<Rightarrow> polygon list \<Rightarrow> path_element list" where
  "add_paths ser colour [] = []"
| "add_paths ser colour (poly # geoms) =
     (case ser poly of
        None \<Rightarrow> add_paths ser colour geoms
      | Some svg_path \<Rightarrow>
          (if svg_path \<noteq> [] then \<lparr>path_d = svg_path, path_fill = colour\<rparr> # add_paths ser colour geoms
           else add_paths ser colour geoms))"

text \<open>
  One pass of \<^verbatim>\<open>for climate_value in ...\<close>: the guard \<^verbatim>\<open>if climate_value in koppen_colors\<close>
  together with the later lookup \<^verbatim>\<open>koppen_colors[climate_value]\<close>. An exception of the
  merge is caught and only printed, so that class adds nothing.
\<close>

definition zone_paths ::
  "real \<Rightarrow> (polygon \<Rightarrow> string option) \<Rightarrow> (int \<rightharpoonup> string) \<Rightarrow> shapes_fn \<Rightarrow> union_fn \<Rightarrow> raster \<Rightarrow> int
     \<Rightarrow> path_element list" where
  "zone_paths thr ser colours shapes unary_union r climate_value =
     (case colours climate_value of
        None \<Rightarrow> []
      | Some colour \<Rightarrow>
          (case merged_polygons thr unary_union
                  (shapes (class_mask (data r) climate_value) (transform r)) of
             Inl e \<Rightarrow> []
           | Inr geoms \<Rightarrow> add_paths ser colour geoms))"

text \<open>All passes of the loop: each emitted path with the class code it was added under.\<close>

definition map_paths ::
  "real \<Rightarrow> (polygon \<Rightarrow> string option) \<Rightarrow> (int \<rightharpoonup> string) \<Rightarrow> shapes_fn \<Rightarrow> union_fn \<Rightarrow> raster
     \<Rightarrow> (int \<times> path_element) list" where
  "map_paths thr ser colours shapes unary_union r =
     concat (map (\<lambda>climate_value.
                map (Pair climate_value) (zone_paths thr ser colours shapes unary_union r climate_value))
             (climate_values (data r)))"

text \<open>
  The path part of \<^verbatim>\<open>create_vectorized_svg\<close>: bounds from the transform, a canvas of
  1200 by 900, threshold \<open>0.01\<close>.
\<close>

definition create_vectorized_svg :: "shapes_fn \<Rightarrow> union_fn \<Rightarrow> raster \<Rightarrow> (int \<times> path_element) list" where
  "create_vectorized_svg shapes unary_union r =
     (let (west, north) = affine_apply (transform r) (0, 0);
          (east, south) = affine_apply (transform r) (real (width (data r)), real (height (data r)));
          svg_width = 1200; svg_height = 900
      in map_paths 0.01
           (\<lambda>poly. fst (create_svg_path poly west east north south svg_width svg_height))
           koppen_colors shapes unary_union r)"

subsection \<open>The three-panel layout and its legend\<close>

text \<open>
  \<^verbatim>\<open>legend_data\<close> of \<^verbatim>\<open>create_final_scientific_koppen.py\<close>: the groups in dictionary
  order, each with its header colour and its items \<open>(code, description, value)\<close>.
\<close>

definition legend_data :: "(string \<times> string \<times> (string \<times> string \<times> int) list) list" where
  "legend_data =
    [(''A - Tropical'', ''#0078FF'',
        [(''Af'', ''Tropical rainforest'', 1), (''Am'', ''Tropical monsoon'', 2),
         (''Aw'', ''Tropical savannah'', 3)]),
     (''B - Arid'', ''#FF6B00'',
        [(''BWh'', ''Hot desert'', 4), (''BWk'', ''Cold desert'', 5),
         (''BSh'', ''Hot semi-arid'', 6), (''BSk'', ''Cold semi-arid'', 7)]),
     (''C - Temperate'', ''#32CD32'',
        [(''Csa'', ''Mediterranean hot summer'', 8), (''Csb'', ''Mediterranean warm summer'', 9),
         (''Cwa'', ''Humid subtropical'', 11), (''Cwb'', ''Subtropical highland'', 12),
         (''Cfa'', ''Humid subtropical'', 14), (''Cfb'', ''Oceanic'', 15)]),
     (''D - Cold'', ''#4682B4'',
        [(''Dwa'', ''Cold dry winter hot'', 21), (''Dwb'', ''Cold dry winter warm'', 22),
         (''Dfa'', ''Cold humid hot summer'', 25), (''Dfb'', ''Cold humid warm summer'', 26)]),
     (''E - Polar'', ''#808080'',
        [(''ET'', ''Tundra'', 29), (''EF'', ''Ice cap'', 30)])]"

record legend_entry =
  entry_value :: int
  entry_code :: string
  entry_description :: string
  entry_swatch :: string

text \<open>
  The legend loops: for each group, for each item whose value is a key of
  \<^verbatim>\<open>koppen_colors\<close>, a swatch in that colour, the code and the description.
\<close>

fun legend_items :: "(string \<times> string \<times> int) list \<Rightarrow> legend_entry list" where
  "legend_items [] = []"
| "legend_items ((code, description, v) # items) =
     (case koppen_colors_final v of
        None \<Rightarrow> legend_items items
      | Some colour \<Rightarrow>
          \<lparr>entry_value = v, entry_code = code, entry_description = description,
            entry_swatch = colour\<rparr> # legend_items items)"

definition legend :: "legend_entry list" where
  "legend = concat (map (\<lambda>(group_name, group_colour, items). legend_items items) legend_data)"

text \<open>
  The path and legend part of \<^verbatim>\<open>create_optimized_scientific_layout\<close>. The argument
  gives, for each entry of \<^verbatim>\<open>tif_paths\<close>, the decoded window, or \<open>None\<close> when the file
  does not exist (the pass is skipped by \<^verbatim>\<open>continue\<close>). \<^verbatim>\<open>zip\<close> with the three
  titles stops after three entries. Each map is 600 by 700, the threshold is
  \<open>0.005\<close>. The legend is placed below \<^verbatim>\<open>y_offset\<close>, a name bound only inside a
  pass that was not skipped: with no such pass Python raises \<^verbatim>\<open>NameError\<close>.
\<close>

definition panel_paths :: "shapes_fn \<Rightarrow> union_fn \<Rightarrow> raster \<Rightarrow> (int \<times> path_element) list" where
  "panel_paths shapes unary_union r =
     (let (west, north) = affine_apply (transform r) (0, 0);
          (east, south) = affine_apply (transform r) (real (width (data r)), real (height (data r)));
          map_width = 600; map_height = 700
      in map_paths 0.005
           (\<lambda>poly. fst (create_svg_path_final poly west east north south map_width map_height))
           koppen_colors_final shapes unary_union r)"

definition create_optimized_scientific_layout ::
  "shapes_fn \<Rightarrow> union_fn \<Rightarrow> raster option list
     \<Rightarrow> py_error + (int \<times> path_element) list list \<times> legend_entry list" where
  "create_optimized_scientific_layout shapes unary_union tif_rasters =
     (let existing = List.map_filter (\<lambda>r. r) (take 3 tif_rasters) in
      if existing = [] then Inl NameError
      else Inr (map (panel_paths shapes unary_union) existing, legend))"

subsection \<open>Zone labels of the metadata file\<close>

text \<open>
  \<^verbatim>\<open>KOPPEN_MAPPING\<close> of \<^verbatim>\<open>koppen_with_labels.py\<close> and the loop of \<^verbatim>\<open>main\<close> that
  fills \<^verbatim>\<open>metadata["climate_zones"]\<close>: for each distinct \<^verbatim>\<open>GRIDCODE\<close>, ascending, the
  label \<^verbatim>\<open>KOPPEN_MAPPING.get(code, f"Unknown (GRIDCODE: {code})")\<close> and the number
  of polygons with that code.
\<close>

definition KOPPEN_MAPPING :: "int \<rightharpoonup> string" where
  "KOPPEN_MAPPING = map_of
    [(1, ''Af - Tropical rainforest''), (2, ''Am - Tropical monsoon''),
     (3, ''Aw - Tropical savanna''), (4, ''BWh - Hot desert''), (5, ''BWk - Cold desert''),
     (6, ''BSh - Hot semi-arid''), (7, ''BSk - Cold semi-arid''),
     (8, ''Csa - Mediterranean hot summer''), (9, ''Csb - Mediterranean warm summer''),
     (10, ''Csc - Mediterranean cool summer''), (11, ''Cwa - Humid subtropical''),
     (12, ''Cwb - Subtropical highland''), (13, ''Cwc - Cold subtropical highland''),
     (14, ''Cfa - Humid subtropical''), (15, ''Cfb - Oceanic''), (16, ''Cfc - Subpolar oceanic''),
     (17, ''Dsa - Hot summer continental''), (18, ''Dsb - Warm summer continental''),
     (19, ''Dsc - Cool summer continental''), (20, ''Dsd - Extremely cold continental''),
     (21, ''Dwa - Hot summer humid continental''), (22, ''Dwb - Warm summer humid continental''),
     (23, ''Dwc - Cool summer humid continental''),
     (24, ''Dwd - Extremely cold humid continental''),
     (25, ''Dfa - Hot summer humid continental''), (26, ''Dfb - Warm summer humid continental''),
     (27, ''Dfc - Subarctic''), (28, ''Dfd - Extremely cold subarctic''),
     (29, ''ET - Tundra''), (30, ''EF - Ice cap'')]"

definition str_int :: "int \<Rightarrow> string" where
  "str_int i = (if i < 0 then ''-'' @ str_nat (nat (- i)) else str_nat (nat i))"

definition zone_label :: "int \<Rightarrow> string" where
  "zone_label code =
     (case KOPPEN_MAPPING code of
        Some label \<Rightarrow> label
      | None \<Rightarrow> ''Unknown (GRIDCODE: '' @ str_int code @ '')'')"

record zone_info =
  label :: string
  polygon_count :: nat

definition climate_zones :: "int list \<Rightarrow> (string \<times> zone_info) list" where
  "climate_zones gridcodes =
     map (\<lambda>code. (str_int code,
                  \<lparr>label = zone_label code, polygon_count = count_list gridcodes code\<rparr>))
         (sort (remdups gridcodes))"

subsection \<open>The specification's wording, for comparison\<close>

text \<open>
  The path-data grammar of the specification: \<open>MOVE (LINE)* CLOSE\<close> for each sub-path,
  the outer ring first and then the holes.
\<close>

datatype path_cmd = MOVE real real | LINE real real | CLOSE

fun render_cmd :: "nat \<Rightarrow> path_cmd \<Rightarrow> string" where
  "render_cmd prec (MOVE x y) = ''M '' @ format_fixed prec x @ '' '' @ format_fixed prec y"
| "render_cmd prec (LINE x y) = ''L '' @ format_fixed prec x @ '' '' @ format_fixed prec y"
| "render_cmd prec CLOSE = ''Z''"

fun ring_cmds :: "coord list \<Rightarrow> path_cmd list" where
  "ring_cmds [] = []"
| "ring_cmds ((x, y) # ps) = MOVE x y # map (\<lambda>(x', y'). LINE x' y') ps @ [CLOSE]"

text \<open>The linear map of the projector, as a function on coordinates.\<close>

definition project :: "real \<Rightarrow> real \<Rightarrow> real \<Rightarrow> real \<Rightarrow> real \<Rightarrow> real \<Rightarrow> coord \<Rightarrow> coord" where
  "project west east north south w h p =
     ((fst p - west) / (east - west) * w, (north - snd p) / (north - south) * h)"

definition spec_polygon_cmds :: "(coord \<Rightarrow> coord) \<Rightarrow> polygon \<Rightarrow> path_cmd list" where
  "spec_polygon_cmds proj p =
     ring_cmds (map proj (exterior p)) @ concat (map (\<lambda>hole. ring_cmds (map proj hole)) (interiors p))"

text \<open>
  The order of the specification's pipeline: all fragments of the class are merged
  first, and the merged polygons below the threshold are discarded afterwards.
\<close>

definition spec_merge_then_filter ::
  "real \<Rightarrow> union_fn \<Rightarrow> (polygon \<times> real) list \<Rightarrow> py_error + polygon list" where
  "spec_merge_then_filter thr unary_union gen =
     (case unary_union (map fst (filter (\<lambda>(poly, v). v = 1) gen)) of
        Inl e \<Rightarrow> Inl e
      | Inr geoms \<Rightarrow> Inr (filter (\<lambda>poly. thr \<le> area poly) geoms))"

subsection \<open>Example inputs\<close>

text \<open>A unit square with a square hole, as shapely lists its rings.\<close>

definition square_with_hole :: polygon where
  "square_with_hole =
     \<lparr>exterior = [(10, -5), (11, -5), (11, -6), (10, -6), (10, -5)],
      interiors = [[(10.25, -5.25), (10.75, -5.25), (10.75, -5.75), (10.25, -5.75), (10.25, -5.25)]]\<rparr>"

text \<open>A rectangle of width \<open>0.01\<close> and height \<open>1\<close>: its area is the threshold \<open>0.01\<close>.\<close>

definition thin_rectangle :: polygon where
  "thin_rectangle = \<lparr>exterior = [(0, 0), (0.01, 0), (0.01, 1), (0, 1), (0, 0)], interiors = []\<rparr>"

text \<open>
  Two rectangles of area \<open>0.008\<close> that share an edge, and their union of area \<open>0.016\<close>;
  a merge that answers with that union for the two fragments.
\<close>

definition fragment_west :: polygon where
  "fragment_west = \<lparr>exterior = [(0, 0), (0.1, 0), (0.1, 0.08), (0, 0.08), (0, 0)], interiors = []\<rparr>"

definition fragment_east :: polygon where
  "fragment_east = \<lparr>exterior = [(0.1, 0), (0.2, 0), (0.2, 0.08), (0.1, 0.08), (0.1, 0)], interiors = []\<rparr>"

definition fragments_union :: polygon where
  "fragments_union = \<lparr>exterior = [(0, 0), (0.2, 0), (0.2, 0.08), (0, 0.08), (0, 0)], interiors = []\<rparr>"

definition union_of_fragments :: union_fn where
  "union_of_fragments polygons =
     Inr (if polygons = [fragment_west, fragment_east] then [fragments_union] else polygons)"

text \<open>
  A window of one-degree cells whose upper left corner is \<open>(10, -5)\<close>. On a mask in
  which no two set cells are neighbours, every set cell is a region of its own and the
  vectorizer yields its square; the union of polygons that do not touch is the
  polygons themselves.
\<close>

definition degree_cells :: affine where
  "degree_cells = (1, 0, 10, 0, -1, -5)"

definition cell_square :: "affine \<Rightarrow> nat \<Rightarrow> nat \<Rightarrow> polygon" where
  "cell_square tr row col =
     \<lparr>exterior = map (affine_apply tr)
        [(real col, real row), (real col, real row + 1), (real col + 1, real row + 1),
         (real col + 1, real row), (real col, real row)],
      interiors = []\<rparr>"

definition cell_shapes :: shapes_fn where
  "cell_shapes mask_cells tr =
     concat (map (\<lambda>(row, cells).
        concat (map (\<lambda>(col, m). if m = 1 then [(cell_square tr row col, 1)] else [])
                (enumerate 0 cells)))
      (enumerate 0 mask_cells))"

definition union_single :: union_fn where
  "union_single polygons = Inr polygons"

section \<open>Properties\<close>

subsection \<open>Coordinate projector\<close>

lemma coords_to_svg_Inr:
  assumes "east \<noteq> west" and "north \<noteq> south"
  shows "coords_to_svg lon lat west east north south w h =
    Inr ((lon - west) / (east - west) * w, (north - lat) / (north - south) * h)"
  using assms by (simp add: coords_to_svg_def)

text \<open>
  Claim C1. For window bounds with \<open>west < east\<close> and \<open>south < north\<close> and a canvas with
  positive width and height, the projector returns exactly
  \<open>((lon - west) / (east - west) * W, (north - lat) / (north - south) * H)\<close>; the
  northwest corner of the window goes to canvas \<open>(0, 0)\<close> and the southwest corner to
  \<open>(0, H)\<close>.
\<close>

theorem coords_to_svg_formula:
  assumes "west < east" and "south < north" and "0 < W" and "0 < H"
  shows "coords_to_svg lon lat west east north south W H =
           Inr ((lon - west) / (east - west) * W, (north - lat) / (north - south) * H)
       \<and> coords_to_svg west north west east north south W H = Inr (0, 0)
       \<and> coords_to_svg west south west east north south W H = Inr (0, H)"
proof -
  have ne: "east \<noteq> west" "north \<noteq> south"
    using assms by simp_all
  have corner: "(north - south) / (north - south) * H = H"
    using ne by simp
  show ?thesis
    using ne corner by (simp add: coords_to_svg_Inr)
qed

theorem coords_to_svg_formula_witness:
  "coords_to_svg 3 4 0 10 10 0 100 100 = Inr (30, 60)
   \<and> coords_to_svg 0 10 0 10 10 0 100 100 = Inr (0, 0)
   \<and> coords_to_svg 0 0 0 10 10 0 100 100 = Inr (0, 100)"
  using coords_to_svg_formula [of 0 10 0 10 100 100 3 4] by simp

text \<open>
  Claim C2. For a point inside the window (bounds with \<open>west < east\<close>, \<open>south < north\<close>,
  positive canvas size), projecting to the canvas and applying the inverse linear
  transform gives the point back, exactly over the reals.
\<close>

theorem coords_to_svg_round_trip:
  assumes "west < east" and "south < north" and "0 < W" and "0 < H"
    and "west \<le> lon" and "lon \<le> east" and "south \<le> lat" and "lat \<le> north"
  shows "\<exists>x y. coords_to_svg lon lat west east north south W H = Inr (x, y)
           \<and> spec_inverse_transform x y west east north south W H = (lon, lat)"
proof -
  have ne: "east \<noteq> west" "north \<noteq> south" "W \<noteq> 0" "H \<noteq> 0"
    using assms by simp_all
  then have "spec_inverse_transform ((lon - west) / (east - west) * W)
      ((north - lat) / (north - south) * H) west east north south W H = (lon, lat)"
    by (simp add: spec_inverse_transform_def)
  then show ?thesis
    using ne by (simp add: coords_to_svg_Inr)
qed

theorem coords_to_svg_round_trip_witness:
  "\<exists>x y. coords_to_svg 18 (-33) 10 40 (-5) (-35) 1200 900 = Inr (x, y)
     \<and> spec_inverse_transform x y 10 40 (-5) (-35) 1200 900 = (18, -33)"
  using coords_to_svg_round_trip [of 10 40 "-35" "-5" 1200 900 18 "-33"] by simp

subsection \<open>Path serializer\<close>

lemma path_loop_lines:
  assumes "east \<noteq> west" and "north \<noteq> south" and "0 < i"
  shows "path_loop prec west east north south w h i coords acc =
    Inr (acc @ map (\<lambda>c. render_cmd prec (case project west east north south w h c of (x, y) \<Rightarrow> LINE x y)) coords)"
  using assms
proof (induction coords arbitrary: i acc)
  case Nil
  then show ?case by simp
next
  case (Cons c coords)
  obtain lon lat where c: "c = (lon, lat)" by (cases c)
  show ?case
    using Cons.prems Cons.IH [of "Suc i"]
    by (simp add: c coords_to_svg_Inr project_def)
qed

lemma path_loop_ring:
  assumes "east \<noteq> west" and "north \<noteq> south" and "coords \<noteq> []"
  shows "\<exists>path_data. path_loop prec west east north south w h 0 coords [] = Inr path_data
    \<and> path_data @ [''Z''] =
        map (render_cmd prec) (ring_cmds (map (project west east north south w h) coords))"
proof -
  obtain lon lat rest where c: "coords = (lon, lat) # rest"
    using assms(3) by (cases coords) auto
  have "map (\<lambda>c. render_cmd prec (case project west east north south w h c of (x, y) \<Rightarrow> LINE x y)) rest
      = map (render_cmd prec) (map (\<lambda>(x', y'). LINE x' y') (map (project west east north south w h) rest))"
    by (simp add: case_prod_beta)
  then show ?thesis
    using assms(1,2) path_loop_lines [of east west north south 1 prec w h rest]
    by (simp add: c coords_to_svg_Inr project_def)
qed

lemma path_loop_degenerate:
  assumes "east = west \<or> north = south" and "coords \<noteq> []"
  shows "path_loop prec west east north south w h i coords acc = Inl ZeroDivisionError"
proof -
  obtain lon lat rest where c: "coords = (lon, lat) # rest"
    using assms(2) by (cases coords) auto
  show ?thesis
    using assms(1) by (auto simp add: c coords_to_svg_def)
qed

lemma create_svg_path_body_cases:
  "create_svg_path_body prec p west east north south w h =
     (if exterior p = [] \<or> area p < 0.001 then Inr None
      else if east = west \<or> north = south then Inl ZeroDivisionError
      else Inr (Some (join '' '' (map (render_cmd prec)
             (ring_cmds (map (project west east north south w h) (exterior p)))))))"
proof (cases "exterior p = [] \<or> area p < 0.001")
  case True
  then show ?thesis
    by (auto simp add: create_svg_path_body_def is_empty_def)
next
  case False
  show ?thesis
  proof (cases "east = west \<or> north = south")
    case True
    then show ?thesis
      using False path_loop_degenerate [of east west north south "exterior p" prec w h 0 "[]"]
      by (simp add: create_svg_path_body_def is_empty_def Let_def)
  next
    case ok: False
    then obtain path_data where
      "path_loop prec west east north south w h 0 (exterior p) [] = Inr path_data"
      "path_data @ [''Z''] =
         map (render_cmd prec) (ring_cmds (map (project west east north south w h) (exterior p)))"
      using False path_loop_ring [of east west north south "exterior p" prec w h] by auto
    then show ?thesis
      using False ok by (simp add: create_svg_path_body_def is_empty_def Let_def)
  qed
qed

text \<open>
  Evaluation of the number formatting on numerals, by the simplifier.
\<close>

lemma str_nat_digit: "n < 10 \<Longrightarrow> str_nat n = [digit_char n]"
  by (simp add: str_nat.simps)

lemma str_nat_step: "10 \<le> n \<Longrightarrow> str_nat n = str_nat (n div 10) @ [digit_char (n mod 10)]"
  by (subst str_nat.simps) simp

lemmas eval_format =
  format_fixed_def round_half_even_def zero_pad_def digit_char_def str_nat_digit str_nat_step Let_def

lemmas eval_cells =
  climate_values_def class_mask_def cell_shapes_def cell_square_def degree_cells_def
  merged_polygons_def union_single_def width_def height_def area_def ring_area_def

lemmas eval_path =
  create_svg_path_def create_svg_path_final_def create_svg_path_body_cases project_def

lemma area_square_with_hole: "area square_with_hole = 3 / 4"
  by (simp add: square_with_hole_def area_def ring_area_def)

lemma path_square_with_hole:
  "fst (create_svg_path square_with_hole 10 40 (-5) (-35) 1200 900)
     = Some ''M 0.00 0.00 L 40.00 0.00 L 40.00 30.00 L 0.00 30.00 L 0.00 0.00 Z''"
  by (simp add: create_svg_path_def create_svg_path_body_cases area_square_with_hole)
     (simp add: square_with_hole_def project_def eval_format)

text \<open>
  Claim C6, as the code has it. A path returned by \<^verbatim>\<open>create_svg_path\<close> is one
  sub-path: a move-to command for the first coordinate of the exterior ring, a line-to
  command for each later coordinate and a close-path command, joined by blanks. Only
  the exterior ring is read: the hole rings of the polygon are not emitted.
\<close>

theorem create_svg_path_exterior_only:
  assumes "fst (create_svg_path p west east north south w h) = Some s"
  shows "exterior p \<noteq> []
     \<and> s = join '' '' (map (render_cmd 2)
             (ring_cmds (map (project west east north south w h) (exterior p))))"
  using assms
  by (auto simp add: create_svg_path_def create_svg_path_body_cases split: if_splits)

text \<open>
  The claim as stated asks for a further sub-path for every hole. For the unit square
  with a square hole the serializer returns the outer ring alone, while the
  specification's grammar has a second \<open>M ... Z\<close> sub-path for the hole.
\<close>

theorem create_svg_path_holes_counterexample:
  "interiors square_with_hole \<noteq> []
   \<and> fst (create_svg_path square_with_hole 10 40 (-5) (-35) 1200 900)
       = Some ''M 0.00 0.00 L 40.00 0.00 L 40.00 30.00 L 0.00 30.00 L 0.00 0.00 Z''
   \<and> join '' '' (map (render_cmd 2)
        (spec_polygon_cmds (project 10 40 (-5) (-35) 1200 900) square_with_hole))
       = ''M 0.00 0.00 L 40.00 0.00 L 40.00 30.00 L 0.00 30.00 L 0.00 0.00 Z M 10.00 7.50 L 30.00 7.50 L 30.00 22.50 L 10.00 22.50 L 10.00 7.50 Z''"
proof -
  have "join '' '' (map (render_cmd 2)
        (spec_polygon_cmds (project 10 40 (-5) (-35) 1200 900) square_with_hole))
       = ''M 0.00 0.00 L 40.00 0.00 L 40.00 30.00 L 0.00 30.00 L 0.00 0.00 Z M 10.00 7.50 L 30.00 7.50 L 30.00 22.50 L 10.00 22.50 L 10.00 7.50 Z''"
    by (simp add: spec_polygon_cmds_def square_with_hole_def project_def eval_format)
  moreover have "interiors square_with_hole \<noteq> []"
    by (simp add: square_with_hole_def)
  ultimately show ?thesis
    using path_square_with_hole by simp
qed

theorem create_svg_path_exterior_only_witness:
  "exterior square_with_hole \<noteq> []
   \<and> ''M 0.00 0.00 L 40.00 0.00 L 40.00 30.00 L 0.00 30.00 L 0.00 0.00 Z''
       = join '' '' (map (render_cmd 2)
           (ring_cmds (map (project 10 40 (-5) (-35) 1200 900) (exterior square_with_hole))))"
  using create_svg_path_exterior_only [OF path_square_with_hole] .

text \<open>
  Claim C10. The serializer returns \<open>None\<close>, with nothing printed, whenever the polygon
  is empty or its area is below \<open>0.001\<close>; an exception raised inside the \<^verbatim>\<open>try\<close>
  block never leaves the function but gives \<open>None\<close> (with a printed line in
  \<^verbatim>\<open>create_vector_koppen_svg.py\<close>, silently in \<^verbatim>\<open>create_final_scientific_koppen.py\<close>);
  in every case the result is \<open>None\<close> or a path string.
\<close>

theorem create_svg_path_never_raises:
  "(is_empty p \<or> area p < 0.001 \<longrightarrow>
       create_svg_path p west east north south w h = (None, [])
     \<and> create_svg_path_final p west east north south w h = (None, []))
   \<and> (\<forall>e. create_svg_path_body 2 p west east north south w h = Inl e \<longrightarrow>
         create_svg_path p west east north south w h = (None, [Error_creating_SVG_path e]))
   \<and> (\<forall>e. create_svg_path_body 1 p west east north south w h = Inl e \<longrightarrow>
         create_svg_path_final p west east north south w h = (None, []))
   \<and> (fst (create_svg_path p west east north south w h) = None
        \<or> (\<exists>s. fst (create_svg_path p west east north south w h) = Some s))
   \<and> (fst (create_svg_path_final p west east north south w h) = None
        \<or> (\<exists>s. fst (create_svg_path_final p west east north south w h) = Some s))"
  by (auto simp add: create_svg_path_def create_svg_path_final_def create_svg_path_body_def)

theorem create_svg_path_never_raises_witness:
  "create_svg_path \<lparr>exterior = [], interiors = []\<rparr> 10 40 (-5) (-35) 1200 900 = (None, [])
   \<and> create_svg_path_final \<lparr>exterior = [], interiors = []\<rparr> 10 40 (-5) (-35) 600 700 = (None, [])
   \<and> create_svg_path square_with_hole 10 10 (-5) (-35) 1200 900
        = (None, [Error_creating_SVG_path ZeroDivisionError])"
proof -
  have empty: "is_empty \<lparr>exterior = [], interiors = []\<rparr>"
    by (simp add: is_empty_def)
  have err: "create_svg_path_body 2 square_with_hole 10 10 (-5) (-35) 1200 900 = Inl ZeroDivisionError"
    by (simp add: create_svg_path_body_cases area_square_with_hole) (simp add: square_with_hole_def)
  have a: "create_svg_path \<lparr>exterior = [], interiors = []\<rparr> 10 40 (-5) (-35) 1200 900 = (None, [])"
    using empty create_svg_path_never_raises
      [where p = "\<lparr>exterior = [], interiors = []\<rparr>" and west = 10 and east = 40 and north = "-5"
        and south = "-35" and w = 1200 and h = 900, THEN conjunct1]
    by blast
  have b: "create_svg_path_final \<lparr>exterior = [], interiors = []\<rparr> 10 40 (-5) (-35) 600 700 = (None, [])"
    using empty create_svg_path_never_raises
      [where p = "\<lparr>exterior = [], interiors = []\<rparr>" and west = 10 and east = 40 and north = "-5"
        and south = "-35" and w = 600 and h = 700, THEN conjunct1]
    by blast
  have c: "create_svg_path square_with_hole 10 10 (-5) (-35) 1200 900
        = (None, [Error_creating_SVG_path ZeroDivisionError])"
    using err create_svg_path_never_raises
      [where p = square_with_hole and west = 10 and east = 10 and north = "-5"
        and south = "-35" and w = 1200 and h = 900, THEN conjunct2, THEN conjunct1]
    by blast
  show ?thesis using a b c by simp
qed

subsection \<open>Class loop, filter and merge\<close>

lemma set_climate_values: "set (climate_values rows) = {v \<in> set (concat rows). 0 < v}"
  by (auto simp add: climate_values_def)

lemma collect_polygons_iff:
  "poly \<in> set (collect_polygons thr gen) \<longleftrightarrow> (poly, 1) \<in> set gen \<and> thr < area poly"
  by (induction gen) (auto split: if_splits)

lemma add_paths_fill: "e \<in> set (add_paths ser colour geoms) \<Longrightarrow> path_fill e = colour"
  by (induction geoms) (auto split: option.splits if_splits)

lemma zone_paths_fill:
  "e \<in> set (zone_paths thr ser colours shapes U r cv) \<Longrightarrow> colours cv = Some (path_fill e)"
  by (auto simp add: zone_paths_def dest: add_paths_fill split: option.splits sum.splits)

lemma map_paths_member:
  "(v, e) \<in> set (map_paths thr ser colours shapes U r) \<Longrightarrow>
     v \<in> set (climate_values (data r)) \<and> e \<in> set (zone_paths thr ser colours shapes U r v)"
  by (auto simp add: map_paths_def)

lemma create_vectorized_svg_member:
  "(v, e) \<in> set (create_vectorized_svg shapes U r) \<Longrightarrow>
     v \<in> set (climate_values (data r)) \<and> koppen_colors v = Some (path_fill e)"
  by (auto simp add: create_vectorized_svg_def Let_def split: prod.splits
      dest!: map_paths_member dest: zone_paths_fill)

lemma panel_paths_member:
  "(v, e) \<in> set (panel_paths shapes U r) \<Longrightarrow>
     v \<in> set (climate_values (data r)) \<and> koppen_colors_final v = Some (path_fill e)"
  by (auto simp add: panel_paths_def Let_def split: prod.splits
      dest!: map_paths_member dest: zone_paths_fill)

lemma legend_values:
  "map entry_value legend = [1, 2, 3, 4, 5, 6, 7, 8, 9, 11, 12, 14, 15, 21, 22, 25, 26, 29, 30]"
  by (simp add: legend_def legend_data_def koppen_colors_final_def koppen_colors_items_def)

lemma koppen_colors_final_dom: "koppen_colors_final v = Some c \<Longrightarrow> 1 \<le> v \<and> v \<le> 30"
  by (auto simp add: koppen_colors_final_def koppen_colors_items_def split: if_splits)

lemma koppen_colors_dom: "koppen_colors v = None \<longleftrightarrow> v < 1 \<or> 30 < v"
  unfolding koppen_colors_def koppen_colors_items_def map_of_eq_None_iff by (simp; presburger)

text \<open>
  Claim C3. The no-data code 0 is never vectorized: it is not among the class codes the
  loop visits, every mask handed to the vectorizer is 0 at the cells whose code is 0,
  and every emitted path was added under a class code other than 0 that occurs in the
  grid.
\<close>

theorem no_data_never_vectorized:
  "0 \<notin> set (climate_values rows)
   \<and> (\<forall>v \<in> set (climate_values rows). \<forall>i < length rows. \<forall>j < length (rows ! i).
         rows ! i ! j = 0 \<longrightarrow> class_mask rows v ! i ! j = 0)
   \<and> (\<forall>(v, e) \<in> set (create_vectorized_svg shapes unary_union r).
         v \<noteq> 0 \<and> v \<in> set (climate_values (data r)))"
proof -
  have "0 \<notin> set (climate_values rows)"
    by (simp add: set_climate_values)
  moreover have "\<forall>v \<in> set (climate_values rows). \<forall>i < length rows. \<forall>j < length (rows ! i).
         rows ! i ! j = 0 \<longrightarrow> class_mask rows v ! i ! j = 0"
    by (auto simp add: set_climate_values class_mask_def)
  moreover have "\<forall>(v, e) \<in> set (create_vectorized_svg shapes unary_union r).
         v \<noteq> 0 \<and> v \<in> set (climate_values (data r))"
    using create_vectorized_svg_member [of _ _ shapes unary_union r]
    by (auto simp add: set_climate_values)
  ultimately show ?thesis by blast
qed

lemmas eval_loop =
  map_paths_def zone_paths_def koppen_colors_def koppen_colors_final_def koppen_colors_items_def

lemma paths_two_cells:
  "create_vectorized_svg cell_shapes union_single \<lparr>data = [[0, 3]], transform = degree_cells\<rparr>
     = [(3, \<lparr>path_d = ''M 600.00 0.00 L 600.00 900.00 L 1200.00 900.00 L 1200.00 0.00 L 600.00 0.00 Z'',
              path_fill = ''#46AAFA''\<rparr>)]"
  by (simp add: create_vectorized_svg_def eval_loop eval_cells)
     (simp add: eval_path area_def ring_area_def eval_format)

theorem no_data_never_vectorized_witness:
  "0 \<notin> set (climate_values [[0, 3]])
   \<and> class_mask [[0, 3]] 3 ! 0 ! 0 = 0
   \<and> create_vectorized_svg cell_shapes union_single \<lparr>data = [[0, 3]], transform = degree_cells\<rparr>
     = [(3, \<lparr>path_d = ''M 600.00 0.00 L 600.00 900.00 L 1200.00 900.00 L 1200.00 0.00 L 600.00 0.00 Z'',
              path_fill = ''#46AAFA''\<rparr>)]"
proof -
  note inst = no_data_never_vectorized [where rows = "[[0, 3]]"]
  have v: "3 \<in> set (climate_values [[0, 3]])"
    by (simp add: climate_values_def)
  have "\<forall>i < length [[0, 3 :: int]]. \<forall>j < length ([[0, 3 :: int]] ! i).
         [[0, 3]] ! i ! j = (0 :: int) \<longrightarrow> class_mask [[0, 3]] 3 ! i ! j = 0"
    using inst [THEN conjunct2, THEN conjunct1] v by blast
  then have "class_mask [[0, 3]] 3 ! 0 ! 0 = 0"
    by simp
  then show ?thesis
    using inst [THEN conjunct1] paths_two_cells by simp
qed

text \<open>
  Claim C4, as the code has it. A traced shape is kept exactly when its value is 1 and
  its area is strictly above the threshold: a shape whose area equals the threshold
  is dropped.
\<close>

theorem small_feature_filter_strict:
  "poly \<in> set (collect_polygons thr gen) \<longleftrightarrow> (poly, 1) \<in> set gen \<and> thr < area poly"
  by (rule collect_polygons_iff)

text \<open>
  The claim as stated keeps a polygon whose area equals the threshold. The rectangle of
  width \<open>0.01\<close> and height \<open>1\<close> has area \<open>0.01\<close>, the threshold of
  \<^verbatim>\<open>create_vector_koppen_svg.py\<close>, and is dropped.
\<close>

lemma area_thin_rectangle: "area thin_rectangle = 0.01"
  by (simp add: thin_rectangle_def area_def ring_area_def)

theorem small_feature_filter_counterexample:
  "area thin_rectangle = 0.01 \<and> collect_polygons 0.01 [(thin_rectangle, 1)] = []"
  by (simp add: area_thin_rectangle)

theorem small_feature_filter_strict_witness:
  "thin_rectangle \<in> set (collect_polygons 0.005 [(thin_rectangle, 1)])
   \<and> thin_rectangle \<notin> set (collect_polygons 0.01 [(thin_rectangle, 1)])"
  using small_feature_filter_strict [of thin_rectangle "0.005" "[(thin_rectangle, 1)]"]
    small_feature_filter_strict [of thin_rectangle "0.01" "[(thin_rectangle, 1)]"]
  by (simp add: area_thin_rectangle)

lemma collect_polygons_none:
  "\<forall>(poly, v) \<in> set gen. area poly \<le> thr \<Longrightarrow> collect_polygons thr gen = []"
  by (induction gen) auto

text \<open>
  Claim C5, as the code has it. The small-feature filter runs on the traced shapes
  before the merge: only shapes with area above the threshold are handed to
  \<^verbatim>\<open>unary_union\<close>, and when every traced shape of a class is at or below the
  threshold, nothing is merged and the class emits no path, whatever the union of the
  shapes would be.
\<close>

theorem filter_before_merge:
  "(\<forall>poly \<in> set (collect_polygons thr gen). thr < area poly)
   \<and> (collect_polygons thr gen \<noteq> [] \<longrightarrow>
        merged_polygons thr unary_union gen = unary_union (collect_polygons thr gen))
   \<and> ((\<forall>(poly, v) \<in> set gen. area poly \<le> thr) \<longrightarrow> merged_polygons thr unary_union gen = Inr [])
   \<and> ((\<forall>(poly, v) \<in> set (shapes (class_mask (data r) climate_value) (transform r)). area poly \<le> thr)
        \<longrightarrow> zone_paths thr ser colours shapes unary_union r climate_value = [])"
  by (auto simp add: collect_polygons_iff merged_polygons_def zone_paths_def collect_polygons_none
      split: option.splits)

text \<open>
  The claim as stated merges first and filters afterwards. Two fragments of area
  \<open>0.008\<close> whose union has area \<open>0.016\<close> are both discarded by the code, while the
  specification's order keeps their union.
\<close>

lemma area_fragments:
  "area fragment_west = 0.008" "area fragment_east = 0.008" "area fragments_union = 0.016"
  by (simp_all add: fragment_west_def fragment_east_def fragments_union_def area_def ring_area_def)

theorem filter_before_merge_counterexample:
  "merged_polygons 0.01 union_of_fragments [(fragment_west, 1), (fragment_east, 1)] = Inr []
   \<and> spec_merge_then_filter 0.01 union_of_fragments [(fragment_west, 1), (fragment_east, 1)]
       = Inr [fragments_union]"
  by (simp add: merged_polygons_def spec_merge_then_filter_def union_of_fragments_def area_fragments)

theorem filter_before_merge_witness:
  "area fragment_west \<le> 0.01 \<and> area fragment_east \<le> 0.01
   \<and> merged_polygons 0.01 union_of_fragments [(fragment_west, 1), (fragment_east, 1)] = Inr []"
proof -
  have h: "\<forall>(poly, v) \<in> set [(fragment_west, 1 :: real), (fragment_east, 1)]. area poly \<le> 0.01"
    by (simp add: area_fragments)
  have imp: "(\<forall>(poly, v) \<in> set [(fragment_west, 1 :: real), (fragment_east, 1)]. area poly \<le> 0.01)
      \<longrightarrow> merged_polygons 0.01 union_of_fragments [(fragment_west, 1), (fragment_east, 1)] = Inr []"
    by (rule filter_before_merge [THEN conjunct2, THEN conjunct2, THEN conjunct1])
  have "merged_polygons 0.01 union_of_fragments [(fragment_west, 1), (fragment_east, 1)] = Inr []"
    by (rule mp [OF imp h])
  then show ?thesis
    by (simp add: area_fragments)
qed

subsection \<open>Unmapped class codes\<close>

lemma zone_paths_unmapped:
  "colours climate_value = None \<Longrightarrow> zone_paths thr ser colours shapes unary_union r climate_value = []"
  by (simp add: zone_paths_def)

text \<open>
  Claim C7, as the code has it. No lookup fails, but the two scripts differ in what
  they do with a class code that has no entry. In \<^verbatim>\<open>create_vectorized_svg\<close> such a
  class is skipped: it emits no path, and every emitted path has the colour that
  \<^verbatim>\<open>koppen_colors\<close> gives its class code. In \<^verbatim>\<open>koppen_with_labels.py\<close> a code
  without a label gets the fallback label \<open>Unknown (GRIDCODE: code)\<close>, and a code
  with a label gets that label.
\<close>

theorem unmapped_class_skipped:
  "(koppen_colors climate_value = None \<longrightarrow>
        zone_paths thr ser koppen_colors shapes unary_union r climate_value = [])
   \<and> (\<forall>(v, e) \<in> set (create_vectorized_svg shapes unary_union r).
        koppen_colors v = Some (path_fill e))
   \<and> (KOPPEN_MAPPING code = None \<longrightarrow>
        zone_label code = ''Unknown (GRIDCODE: '' @ str_int code @ '')'')
   \<and> (\<forall>l. KOPPEN_MAPPING code = Some l \<longrightarrow> zone_label code = l)"
proof -
  have "\<forall>(v, e) \<in> set (create_vectorized_svg shapes unary_union r).
        koppen_colors v = Some (path_fill e)"
    using create_vectorized_svg_member [of _ _ shapes unary_union r] by blast
  then show ?thesis
    by (simp add: zone_paths_unmapped zone_label_def)
qed

lemma paths_three_cells:
  "create_vectorized_svg cell_shapes union_single \<lparr>data = [[3, 0, 31]], transform = degree_cells\<rparr>
     = [(3, \<lparr>path_d = ''M 0.00 0.00 L 0.00 900.00 L 400.00 900.00 L 400.00 0.00 L 0.00 0.00 Z'',
              path_fill = ''#46AAFA''\<rparr>)]"
  by (simp add: create_vectorized_svg_def eval_loop eval_cells)
     (simp add: eval_path area_def ring_area_def eval_format)

text \<open>
  The claim as stated has an unmapped class rendered in a default style. In a grid with
  the classes 3 and 31, class 31 is visited by the loop, has no colour, and only the
  cell of class 3 is emitted.
\<close>

theorem unmapped_class_counterexample:
  "climate_values [[3, 0, 31]] = [3, 31]
   \<and> koppen_colors 31 = None
   \<and> create_vectorized_svg cell_shapes union_single \<lparr>data = [[3, 0, 31]], transform = degree_cells\<rparr>
     = [(3, \<lparr>path_d = ''M 0.00 0.00 L 0.00 900.00 L 400.00 900.00 L 400.00 0.00 L 0.00 0.00 Z'',
              path_fill = ''#46AAFA''\<rparr>)]"
  using paths_three_cells
  by (simp add: climate_values_def koppen_colors_def koppen_colors_items_def)

theorem unmapped_class_skipped_witness:
  "koppen_colors 31 = None
   \<and> zone_paths 0.01 (\<lambda>poly. fst (create_svg_path poly 10 13 (-5) (-6) 1200 900)) koppen_colors
        cell_shapes union_single \<lparr>data = [[3, 0, 31]], transform = degree_cells\<rparr> 31 = []
   \<and> KOPPEN_MAPPING 31 = None
   \<and> zone_label 31 = ''Unknown (GRIDCODE: 31)''"
proof -
  have c: "koppen_colors 31 = None"
    by (simp add: koppen_colors_def koppen_colors_items_def)
  have k: "KOPPEN_MAPPING 31 = None"
    by (simp add: KOPPEN_MAPPING_def)
  have s: "str_int 31 = ''31''"
    by (simp add: str_int_def eval_format)
  note inst = unmapped_class_skipped [where climate_value = 31 and code = 31 and thr = "0.01"
      and ser = "\<lambda>poly. fst (create_svg_path poly 10 13 (-5) (-6) 1200 900)"
      and shapes = cell_shapes and unary_union = union_single
      and r = "\<lparr>data = [[3, 0, 31]], transform = degree_cells\<rparr>"]
  have "zone_paths 0.01 (\<lambda>poly. fst (create_svg_path poly 10 13 (-5) (-6) 1200 900)) koppen_colors
        cell_shapes union_single \<lparr>data = [[3, 0, 31]], transform = degree_cells\<rparr> 31 = []"
    using inst [THEN conjunct1] c by blast
  moreover have "zone_label 31 = ''Unknown (GRIDCODE: '' @ str_int 31 @ '')''"
    using inst [THEN conjunct2, THEN conjunct2, THEN conjunct1] k by blast
  ultimately show ?thesis
    using c k s by simp
qed

subsection \<open>Legend\<close>

lemma count_legend_values:
  assumes "1 \<le> v" and "v \<le> 30"
  shows "count_list [1, 2, 3, 4, 5, 6, 7, 8, 9, 11, 12, 14, 15, 21, 22, 25, 26, 29, 30 :: int] v
     = (if v \<in> {10, 13, 16, 17, 18, 19, 20, 23, 24, 27, 28} then 0 else 1)"
proof -
  have "v = 1 \<or> v = 2 \<or> v = 3 \<or> v = 4 \<or> v = 5 \<or> v = 6 \<or> v = 7 \<or> v = 8 \<or> v = 9 \<or> v = 10
      \<or> v = 11 \<or> v = 12 \<or> v = 13 \<or> v = 14 \<or> v = 15 \<or> v = 16 \<or> v = 17 \<or> v = 18 \<or> v = 19
      \<or> v = 20 \<or> v = 21 \<or> v = 22 \<or> v = 23 \<or> v = 24 \<or> v = 25 \<or> v = 26 \<or> v = 27 \<or> v = 28
      \<or> v = 29 \<or> v = 30"
    using assms by arith
  then show ?thesis
    by (elim disjE) simp_all
qed

text \<open>
  Claim C8, as the code has it. The legend of \<^verbatim>\<open>create_optimized_scientific_layout\<close>
  is a fixed table that does not depend on the maps: its class codes are 1 to 9, 11, 12,
  14, 15, 21, 22, 25, 26, 29 and 30, in ascending order and each once. A class code of
  an emitted path is therefore in the legend exactly once, unless it is one of 10, 13, 16
  to 20, 23, 24, 27 and 28, which the legend does not list.
\<close>

theorem legend_fixed_table:
  assumes "create_optimized_scientific_layout shapes unary_union tif_rasters = Inr (maps, lg)"
  shows "map entry_value lg = [1, 2, 3, 4, 5, 6, 7, 8, 9, 11, 12, 14, 15, 21, 22, 25, 26, 29, 30]
     \<and> sorted (map entry_value lg) \<and> distinct (map entry_value lg)
     \<and> (\<forall>m \<in> set maps. \<forall>(v, e) \<in> set m.
          count_list (map entry_value lg) v
            = (if v \<in> {10, 13, 16, 17, 18, 19, 20, 23, 24, 27, 28} then 0 else 1))"
proof -
  have lg: "lg = legend"
    and maps: "set maps \<subseteq> range (panel_paths shapes unary_union)"
    using assms by (auto simp add: create_optimized_scientific_layout_def Let_def split: if_splits)
  have vals: "map entry_value lg = [1, 2, 3, 4, 5, 6, 7, 8, 9, 11, 12, 14, 15, 21, 22, 25, 26, 29, 30]"
    by (simp add: lg legend_values)
  have "count_list (map entry_value lg) v
            = (if v \<in> {10, 13, 16, 17, 18, 19, 20, 23, 24, 27, 28} then 0 else 1)"
    if m: "m \<in> set maps" and ve: "(v, e) \<in> set m" for m v e
  proof -
    obtain r where "m = panel_paths shapes unary_union r"
      using maps m by auto
    then have "koppen_colors_final v = Some (path_fill e)"
      using ve panel_paths_member by blast
    then have "1 \<le> v \<and> v \<le> 30"
      by (rule koppen_colors_final_dom)
    then show ?thesis
      unfolding vals using count_legend_values by blast
  qed
  then have "\<forall>m \<in> set maps. \<forall>(v, e) \<in> set m.
          count_list (map entry_value lg) v
            = (if v \<in> {10, 13, 16, 17, 18, 19, 20, 23, 24, 27, 28} then 0 else 1)"
    by blast
  moreover have "sorted (map entry_value lg)" "distinct (map entry_value lg)"
    unfolding vals by simp_all
  ultimately show ?thesis
    using vals by blast
qed

lemma panel_three_cells:
  "panel_paths cell_shapes union_single \<lparr>data = [[10, 0, 3]], transform = degree_cells\<rparr>
     = [(3, \<lparr>path_d = ''M 400.0 0.0 L 400.0 700.0 L 600.0 700.0 L 600.0 0.0 L 400.0 0.0 Z'',
              path_fill = ''#46AAFA''\<rparr>),
        (10, \<lparr>path_d = ''M 0.0 0.0 L 0.0 700.0 L 200.0 700.0 L 200.0 0.0 L 0.0 0.0 Z'',
              path_fill = ''#969600''\<rparr>)]"
  by (simp add: panel_paths_def eval_loop eval_cells)
     (simp add: eval_path area_def ring_area_def eval_format)

lemma layout_three_cells:
  "create_optimized_scientific_layout cell_shapes union_single
      [Some \<lparr>data = [[10, 0, 3]], transform = degree_cells\<rparr>]
     = Inr ([[(3, \<lparr>path_d = ''M 400.0 0.0 L 400.0 700.0 L 600.0 700.0 L 600.0 0.0 L 400.0 0.0 Z'',
                    path_fill = ''#46AAFA''\<rparr>),
              (10, \<lparr>path_d = ''M 0.0 0.0 L 0.0 700.0 L 200.0 700.0 L 200.0 0.0 L 0.0 0.0 Z'',
                    path_fill = ''#969600''\<rparr>)]], legend)"
  by (simp add: create_optimized_scientific_layout_def List.map_filter_def panel_three_cells)

text \<open>
  The claim as stated has every rendered class code in the legend. A grid with a cell of
  class 10 renders a path for it, and the legend has no entry for 10.
\<close>

theorem legend_completeness_counterexample:
  "create_optimized_scientific_layout cell_shapes union_single
      [Some \<lparr>data = [[10, 0, 3]], transform = degree_cells\<rparr>]
     = Inr ([[(3, \<lparr>path_d = ''M 400.0 0.0 L 400.0 700.0 L 600.0 700.0 L 600.0 0.0 L 400.0 0.0 Z'',
                    path_fill = ''#46AAFA''\<rparr>),
              (10, \<lparr>path_d = ''M 0.0 0.0 L 0.0 700.0 L 200.0 700.0 L 200.0 0.0 L 0.0 0.0 Z'',
                    path_fill = ''#969600''\<rparr>)]], legend)
   \<and> count_list (map entry_value legend) 10 = 0"
  using layout_three_cells by (simp add: legend_values)

theorem legend_fixed_table_witness:
  "map entry_value legend = [1, 2, 3, 4, 5, 6, 7, 8, 9, 11, 12, 14, 15, 21, 22, 25, 26, 29, 30]
   \<and> sorted (map entry_value legend) \<and> distinct (map entry_value legend)
   \<and> count_list (map entry_value legend) 3 = 1
   \<and> count_list (map entry_value legend) 10 = 0"
proof -
  note inst = legend_fixed_table [OF layout_three_cells]
  have "\<forall>m \<in> set [[(3 :: int, \<lparr>path_d = ''M 400.0 0.0 L 400.0 700.0 L 600.0 700.0 L 600.0 0.0 L 400.0 0.0 Z'',
                    path_fill = ''#46AAFA''\<rparr>),
              (10, \<lparr>path_d = ''M 0.0 0.0 L 0.0 700.0 L 200.0 700.0 L 200.0 0.0 L 0.0 0.0 Z'',
                    path_fill = ''#969600''\<rparr>)]]. \<forall>(v, e) \<in> set m.
          count_list (map entry_value legend) v
            = (if v \<in> {10, 13, 16, 17, 18, 19, 20, 23, 24, 27, 28} then 0 else 1)"
    by (rule inst [THEN conjunct2, THEN conjunct2, THEN conjunct2])
  then have "count_list (map entry_value legend) 3 = 1 \<and> count_list (map entry_value legend) 10 = 0"
    by simp
  then show ?thesis
    using inst by blast
qed

end
